theory Spec2Isabelle
  imports Complex_Main "HOL-Library.Word"
begin

section \<open>Data model\<close>

text \<open>
  Go's \<open>int64\<close> and \<open>int32\<close> are machine words: arithmetic wraps around, comparisons
  are signed (\<open>\<le>s\<close>, \<open><s\<close>, read through \<open>sint\<close>).  A Go \<open>error\<close> is represented
  by the text of \<open>err.Error()\<close>.
\<close>

type_synonym int64 = "64 word"
type_synonym int32 = "32 word"
type_synonym error = string

text \<open>\<open>schema.JobState\<close> is a Go string type; its constants are written out in the
  handlers' API annotations (\<open>running, completed, failed, cancelled, stopped, timeout\<close>).\<close>

type_synonym JobState = string

definition JobStateRunning :: JobState where
  "JobStateRunning = ''running''"

definition JobStateCompleted :: JobState where
  "JobStateCompleted = ''completed''"

text \<open>Modelled from the spec: \<open>JobState.Valid\<close> is declared in \<open>pkg/schema\<close>, which is
  not among the sources verified here.  The handlers' annotations enumerate the states
  \<open>running, completed, failed, cancelled, stopped, timeout\<close>.\<close>

definition Valid :: "JobState \<Rightarrow> bool" where
  "Valid s = (s \<in> set [''running'', ''completed'', ''failed'', ''cancelled'',
                         ''stopped'', ''timeout''])"

text \<open>Modelled from the spec: the monitoring status enumeration
  (disabled, pending, archiving-failed, archiving-successful) of \<open>pkg/schema\<close>.\<close>

datatype MonitoringStatus =
    MonitoringStatusDisabled
  | MonitoringStatusPending
  | MonitoringStatusArchivingFailed
  | MonitoringStatusArchivingSuccessful

datatype Tag = Tag (Tag_ID: int64) (Tag_Type: string) (Tag_Name: string)

text \<open>One entry of the statistics map that the metric archiver returns; the numbers are
  carried around only, never computed with.\<close>

datatype JobStatistics = JobStatistics (statUnit: string) (statAvg: real) (statMin: real) (statMax: real)

type_synonym Statistics = "(string \<times> JobStatistics) list"

text \<open>\<open>schema.Job\<close>, restricted to the fields the REST handlers read or write.
  \<open>StartTimeUnix\<close> is what \<open>job.StartTime.Unix()\<close> returns.\<close>

record Job =
  ID :: int64
  JobID :: int64
  User :: string
  Cluster :: string
  StartTimeUnix :: int64
  Duration :: int32
  State :: JobState
  MonitoringStatus :: MonitoringStatus

text \<open>\<open>schema.JobMeta\<close>, the body of a start request.\<close>

record JobMeta =
  metaJobID :: int64
  metaUser :: string
  metaCluster :: string
  metaStartTime :: int64
  metaState :: JobState
  metaMonitoringStatus :: MonitoringStatus
  metaTags :: "Tag list"

record StopJobApiRequest =
  StopTime :: int64
  reqState :: JobState
  reqJobId :: "int64 option"
  reqCluster :: "string option"
  reqStartTime :: "int64 option"

text \<open>\<open>model.JobFilter\<close> and \<open>model.PageRequest\<close>, as far as \<open>getJobs\<close> fills them.\<close>

record JobFilter =
  filterState :: "JobState list"
  filterCluster :: "string option"
  filterStartTime :: "(int64 \<times> int64) option"

record PageRequest =
  ItemsPerPage :: int64
  Page :: int64

section \<open>Collaborators: job store, archive, metric archiver\<close>

text \<open>
  Every call that leaves the handler is recorded, in order, in the \<open>trace\<close> of the world;
  "never invoked" is a statement about that trace.
\<close>

datatype Call =
    CallFindById int64
  | CallFind int64 "string option" "int64 option"
  | CallFindAll int64 string
  | CallStart JobMeta
  | CallStop int64 int32 JobState MonitoringStatus
  | CallFetchMetadata int64
  | CallArchiveJob Job
  | CallUpdateMonitoringStatus int64 MonitoringStatus
  | CallArchive int64 MonitoringStatus Statistics
  | CallDeleteJobsBefore int64
  | CallQueryJobs
  | CallGetStatistics int64
  | CallUpdateTags Job "Tag list"
  | SqlSelectTagId string string
  | SqlInsertTag string string
  | SqlInsertJobtag int64 int64
  | SqlSelectTags "int64 option"
  | OngoingArchivingsAdd
  | OngoingArchivingsDone

text \<open>
  The database: the tables \<open>job\<close>, \<open>tag\<close> and \<open>jobtag\<close>, the statistics columns of the job
  rows, the tag lists of the archived copies, and the two row-id sequences.
\<close>

record World =
  tbl_job :: "Job list"
  tbl_stats :: "(int64 \<times> Statistics) list"
  tbl_tag :: "Tag list"
  tbl_jobtag :: "(int64 \<times> int64) list"
  seq_job :: int64
  seq_tag :: int64
  archive_tags :: "(int64 \<times> Tag list) list"
  trace :: "Call list"

text \<open>
  What the verified sources do not decide: whether a call to a collaborator fails
  (\<open>fault\<close>, with the error text), what the metric archiver computes, what
  \<open>repository.SanityChecks\<close> says about a job specification, which statistics the archive
  holds for a job, and which rows a job query selects.
\<close>

record Env =
  fault :: "Call \<Rightarrow> error option"
  archiver :: "Job \<Rightarrow> Statistics"
  SanityChecks :: "JobMeta \<Rightarrow> error option"
  statistics_of :: "Job \<Rightarrow> Statistics"
  query_result :: "JobFilter \<Rightarrow> PageRequest \<Rightarrow> Job list \<Rightarrow> Job list"

definition record_call :: "Call \<Rightarrow> World \<Rightarrow> World" where
  "record_call c w = w\<lparr>trace := trace w @ [c]\<rparr>"

text \<open>Modelled from the spec: \<open>JobRepository.Stop\<close> persists
  duration, final state and monitoring status of the row with the given database id.\<close>

definition Stop :: "Env \<Rightarrow> int64 \<Rightarrow> int32 \<Rightarrow> JobState \<Rightarrow> MonitoringStatus \<Rightarrow> World \<Rightarrow> error option \<times> World" where
  "Stop env jobId duration state monitoringStatus w =
     (let c = CallStop jobId duration state monitoringStatus; w1 = record_call c w in
      case fault env c of
        Some e \<Rightarrow> (Some e, w1)
      | None \<Rightarrow> (None, w1\<lparr>tbl_job :=
          map (\<lambda>j. if ID j = jobId
                    then j\<lparr>Duration := duration, State := state, MonitoringStatus := monitoringStatus\<rparr>
                    else j) (tbl_job w1)\<rparr>))"

text \<open>Modelled from the spec: \<open>JobRepository.UpdateMonitoringStatus\<close>.\<close>

definition UpdateMonitoringStatus :: "Env \<Rightarrow> int64 \<Rightarrow> MonitoringStatus \<Rightarrow> World \<Rightarrow> error option \<times> World" where
  "UpdateMonitoringStatus env jobId monitoringStatus w =
     (let c = CallUpdateMonitoringStatus jobId monitoringStatus; w1 = record_call c w in
      case fault env c of
        Some e \<Rightarrow> (Some e, w1)
      | None \<Rightarrow> (None, w1\<lparr>tbl_job :=
          map (\<lambda>j. if ID j = jobId then j\<lparr>MonitoringStatus := monitoringStatus\<rparr> else j)
              (tbl_job w1)\<rparr>))"

text \<open>Modelled from the spec: \<open>JobRepository.Archive\<close> persists the monitoring status
  together with the statistics as the final update of the row.\<close>

definition Archive :: "Env \<Rightarrow> int64 \<Rightarrow> MonitoringStatus \<Rightarrow> Statistics \<Rightarrow> World \<Rightarrow> error option \<times> World" where
  "Archive env jobId monitoringStatus metricStats w =
     (let c = CallArchive jobId monitoringStatus metricStats; w1 = record_call c w in
      case fault env c of
        Some e \<Rightarrow> (Some e, w1)
      | None \<Rightarrow> (None, w1\<lparr>
          tbl_job := map (\<lambda>j. if ID j = jobId then j\<lparr>MonitoringStatus := monitoringStatus\<rparr> else j)
                         (tbl_job w1),
          tbl_stats := (jobId, metricStats) # filter (\<lambda>r. fst r \<noteq> jobId) (tbl_stats w1)\<rparr>))"

text \<open>Modelled from the spec: \<open>JobRepository.FetchMetadata\<close> reads auxiliary metadata of the
  job (the job script); the metadata itself is not represented, only whether the read fails.\<close>

definition FetchMetadata :: "Env \<Rightarrow> Job \<Rightarrow> World \<Rightarrow> error option \<times> World" where
  "FetchMetadata env job w =
     (let c = CallFetchMetadata (ID job) in (fault env c, record_call c w))"

text \<open>Modelled from the spec: \<open>metricdata.ArchiveJob\<close>, the metric archiver, returns the
  job's summary statistics or fails.\<close>

definition ArchiveJob :: "Env \<Rightarrow> Job \<Rightarrow> World \<Rightarrow> (error + Statistics) \<times> World" where
  "ArchiveJob env job w =
     (let c = CallArchiveJob job in
      (case fault env c of Some e \<Rightarrow> Inl e | None \<Rightarrow> Inr (archiver env job), record_call c w))"

section \<open>HTTP responses\<close>

datatype Body =
    ErrorResponse (errStatus: string) (errError: string)
  | PlainText string
  | StartJobApiResponse int64
  | DeleteJobApiResponse string
  | JobBody Job
  | JobsBody "(Job \<times> Tag list \<times> Statistics) list"

datatype Response = Response (statusCode: nat) (contentType: string) (body: Body)

text \<open>\<open>http.StatusText\<close> on the status codes the handlers use.\<close>

definition StatusText :: "nat \<Rightarrow> string" where
  "StatusText code =
     (if code = 200 then ''OK''
      else if code = 201 then ''Created''
      else if code = 400 then ''Bad Request''
      else if code = 403 then ''Forbidden''
      else if code = 404 then ''Not Found''
      else if code = 422 then ''Unprocessable Entity''
      else if code = 500 then ''Internal Server Error''
      else [])"

definition handleError :: "error \<Rightarrow> nat \<Rightarrow> Response" where
  "handleError err code =
     Response code ''application/json'' (ErrorResponse (StatusText code) err)"

text \<open>\<open>http.Error\<close> of the Go standard library: a plain-text body, the message and a
  newline.\<close>

definition http_Error :: "string \<Rightarrow> nat \<Rightarrow> Response" where
  "http_Error msg code = Response code ''text/plain; charset=utf-8'' (PlainText (msg @ [CHR 0x0A]))"

text \<open>\<open>%#v\<close> of a Go string: the text in double quotes (escapes are not represented).\<close>

definition gosyntax :: "string \<Rightarrow> string" where
  "gosyntax s = [CHR 0x22] @ s @ [CHR 0x22]"

section \<open>Standard library: number parsing and printing\<close>

text \<open>\<open>strconv.ParseInt(s, 10, 64)\<close>: an optional sign, then decimal digits only; the value
  must fit into a signed 64-bit integer.\<close>

definition digit_of :: "char \<Rightarrow> int option" where
  "digit_of c = (let n = (of_char c :: int) in if 48 \<le> n \<and> n \<le> 57 then Some (n - 48) else None)"

fun digits_value :: "string \<Rightarrow> int \<Rightarrow> int option" where
  "digits_value [] acc = Some acc"
| "digits_value (c # cs) acc =
     (case digit_of c of None \<Rightarrow> None | Some d \<Rightarrow> digits_value cs (10 * acc + d))"

definition parse_decimal :: "string \<Rightarrow> string \<Rightarrow> error + int64" where
  "parse_decimal fn s =
     (let neg = (s \<noteq> [] \<and> hd s = CHR ''-'');
          ds = (if s \<noteq> [] \<and> (hd s = CHR ''+'' \<or> hd s = CHR ''-'') then tl s else s)
      in if ds = [] then Inl (fn @ '': parsing '' @ gosyntax s @ '': invalid syntax'')
         else case digits_value ds 0 of
                None \<Rightarrow> Inl (fn @ '': parsing '' @ gosyntax s @ '': invalid syntax'')
              | Some n \<Rightarrow>
                  if neg then (if n \<le> 9223372036854775808 then Inr (word_of_int (- n))
                               else Inl (fn @ '': parsing '' @ gosyntax s @ '': value out of range''))
                  else (if n < 9223372036854775808 then Inr (word_of_int n)
                        else Inl (fn @ '': parsing '' @ gosyntax s @ '': value out of range'')))"

definition ParseInt :: "string \<Rightarrow> error + int64" where
  "ParseInt s = parse_decimal ''strconv.ParseInt'' s"

definition Atoi :: "string \<Rightarrow> error + int64" where
  "Atoi s = parse_decimal ''strconv.Atoi'' s"

text \<open>\<open>%d\<close> of \<open>fmt.Sprintf\<close>.\<close>

function show_digits :: "int \<Rightarrow> string" where
  "show_digits n = (if n < 10 then [char_of (48 + n)]
                    else show_digits (n div 10) @ [char_of (48 + n mod 10)])"
  by pat_completeness auto
termination
  by (relation "measure nat") auto

declare show_digits.simps [simp del]

definition show_int :: "int \<Rightarrow> string" where
  "show_int i = (if i < 0 then CHR ''-'' # show_digits (- i) else show_digits i)"

text \<open>\<open>strings.Split(s, "-")\<close>.\<close>

fun split_dash :: "string \<Rightarrow> string list" where
  "split_dash [] = [[]]"
| "split_dash (c # cs) =
     (if c = CHR ''-'' then [] # split_dash cs
      else (case split_dash cs of [] \<Rightarrow> [[c]] | x # xs \<Rightarrow> (c # x) # xs))"

section \<open>Authorization check\<close>

text \<open>Modelled from the spec: the authorization collaborator supplies a requester identity
  with a role check; the handlers only test the API role.\<close>

record AuthUser =
  Username :: string
  Roles :: "string list"

definition RoleApi :: string where
  "RoleApi = ''api''"

definition HasRole :: "string \<Rightarrow> AuthUser \<Rightarrow> bool" where
  "HasRole role u = (role \<in> set (Roles u))"

text \<open>The test every handler starts with:
  \<open>user := auth.GetUser(r.Context()); user != nil && !user.HasRole(auth.RoleApi)\<close>.\<close>

definition missing_role :: "AuthUser option \<Rightarrow> bool" where
  "missing_role user = (case user of None \<Rightarrow> False | Some u \<Rightarrow> \<not> HasRole RoleApi u)"

definition forbidden :: Response where
  "forbidden = handleError (''missing role: '' @ gosyntax RoleApi) 403"

section \<open>Job store operations used by the handlers\<close>

definition ErrNoRows :: error where
  "ErrNoRows = ''sql: no rows in result set''"

text \<open>Modelled from the spec: \<open>JobRepository.FindById\<close> looks a job up by its database id;
  a job that is not found is an error of the lookup.\<close>

definition FindById :: "Env \<Rightarrow> int64 \<Rightarrow> World \<Rightarrow> (error + Job) \<times> World" where
  "FindById env jobId w =
     (let c = CallFindById jobId; w1 = record_call c w in
      case fault env c of
        Some e \<Rightarrow> (Inl e, w1)
      | None \<Rightarrow>
          (case find (\<lambda>j. ID j = jobId) (tbl_job w1) of
             None \<Rightarrow> (Inl ErrNoRows, w1)
           | Some j \<Rightarrow> (Inr j, w1)))"

text \<open>Modelled from the spec: \<open>JobRepository.Find\<close> looks a job up by its natural key
  (external job id, and cluster and start time where given).\<close>

definition Find :: "Env \<Rightarrow> int64 \<Rightarrow> string option \<Rightarrow> int64 option \<Rightarrow> World \<Rightarrow> (error + Job) \<times> World" where
  "Find env jobId cluster startTime w =
     (let c = CallFind jobId cluster startTime; w1 = record_call c w in
      case fault env c of
        Some e \<Rightarrow> (Inl e, w1)
      | None \<Rightarrow>
          (case find (\<lambda>j. JobID j = jobId
                          \<and> (case cluster of None \<Rightarrow> True | Some cl \<Rightarrow> Cluster j = cl)
                          \<and> (case startTime of None \<Rightarrow> True | Some t \<Rightarrow> StartTimeUnix j = t))
                     (tbl_job w1) of
             None \<Rightarrow> (Inl ErrNoRows, w1)
           | Some j \<Rightarrow> (Inr j, w1)))"

text \<open>Modelled from the spec: \<open>JobRepository.FindAll\<close> with job id and cluster given returns
  the existing jobs matching (external job id, cluster).\<close>

definition FindAll :: "Env \<Rightarrow> int64 \<Rightarrow> string \<Rightarrow> World \<Rightarrow> (error + Job list) \<times> World" where
  "FindAll env jobId cluster w =
     (let c = CallFindAll jobId cluster; w1 = record_call c w in
      case fault env c of
        Some e \<Rightarrow> (Inl e, w1)
      | None \<Rightarrow> (Inr (filter (\<lambda>j. JobID j = jobId \<and> Cluster j = cluster) (tbl_job w1)), w1))"

text \<open>Modelled from the spec: \<open>JobRepository.Start\<close> inserts the job row and returns the
  database-assigned id of the new row.\<close>

definition Start :: "Env \<Rightarrow> JobMeta \<Rightarrow> World \<Rightarrow> (error + int64) \<times> World" where
  "Start env req w =
     (let c = CallStart req; w1 = record_call c w in
      case fault env c of
        Some e \<Rightarrow> (Inl e, w1)
      | None \<Rightarrow>
          (let newid = seq_job w1 + 1 in
           (Inr newid,
            w1\<lparr>tbl_job := tbl_job w1 @
                  [\<lparr>ID = newid, JobID = metaJobID req, User = metaUser req,
                    Cluster = metaCluster req, StartTimeUnix = metaStartTime req, Duration = 0,
                    State = metaState req, MonitoringStatus = metaMonitoringStatus req\<rparr>],
                seq_job := newid\<rparr>)))"

text \<open>Modelled from the spec: \<open>JobRepository.DeleteJobsBefore\<close> removes all jobs with a start
  time before the timestamp from the database and returns how many there were.\<close>

definition DeleteJobsBefore :: "Env \<Rightarrow> int64 \<Rightarrow> World \<Rightarrow> (error + int) \<times> World" where
  "DeleteJobsBefore env startTime w =
     (let c = CallDeleteJobsBefore startTime; w1 = record_call c w in
      case fault env c of
        Some e \<Rightarrow> (Inl e, w1)
      | None \<Rightarrow>
          (Inr (int (length (filter (\<lambda>j. StartTimeUnix j <s startTime) (tbl_job w1)))),
           w1\<lparr>tbl_job := filter (\<lambda>j. \<not> StartTimeUnix j <s startTime) (tbl_job w1)\<rparr>))"

text \<open>Modelled from the spec: \<open>archive.UpdateTags\<close> reflects the tag list into the archived
  copy of a job whose monitoring status says that it has been archived.\<close>

definition UpdateTags :: "Env \<Rightarrow> Job \<Rightarrow> Tag list \<Rightarrow> World \<Rightarrow> error option \<times> World" where
  "UpdateTags env job tags w =
     (let c = CallUpdateTags job tags; w1 = record_call c w in
      case fault env c of
        Some e \<Rightarrow> (Some e, w1)
      | None \<Rightarrow>
          (None,
           if MonitoringStatus job = MonitoringStatusArchivingSuccessful
           then w1\<lparr>archive_tags := (ID job, tags) # filter (\<lambda>r. fst r \<noteq> ID job) (archive_tags w1)\<rparr>
           else w1))"

section \<open>Tags (internal/repository/tags.go)\<close>

text \<open>\<open>TagId\<close>: \<open>SELECT id FROM tag WHERE tag_type = ? AND tag_name = ?\<close>, first row; every
  error of the scan, the empty result included, is reported as "does not exist".\<close>

definition TagId :: "Env \<Rightarrow> string \<Rightarrow> string \<Rightarrow> World \<Rightarrow> (int64 \<times> bool) \<times> World" where
  "TagId env tagType tagName w =
     (let c = SqlSelectTagId tagType tagName; w1 = record_call c w in
      case fault env c of
        Some e \<Rightarrow> ((0, False), w1)
      | None \<Rightarrow>
          (case find (\<lambda>t. Tag_Type t = tagType \<and> Tag_Name t = tagName) (tbl_tag w1) of
             None \<Rightarrow> ((0, False), w1)
           | Some t \<Rightarrow> ((Tag_ID t, True), w1)))"

text \<open>Modelled from the spec: the uniqueness constraint of the tag table.  A tag is globally
  unique per (type, name), so the table rejects a second row with the same type and name.\<close>

definition unique_violation :: "Tag list \<Rightarrow> string \<Rightarrow> string \<Rightarrow> bool" where
  "unique_violation rows tagType tagName =
     (find (\<lambda>t. Tag_Type t = tagType \<and> Tag_Name t = tagName) rows \<noteq> None)"

text \<open>\<open>CreateTag\<close>: \<open>INSERT INTO tag (tag_type, tag_name) VALUES (?, ?)\<close> and the id of the
  new row.\<close>

definition CreateTag :: "Env \<Rightarrow> string \<Rightarrow> string \<Rightarrow> World \<Rightarrow> (error + int64) \<times> World" where
  "CreateTag env tagType tagName w =
     (let c = SqlInsertTag tagType tagName; w1 = record_call c w in
      case fault env c of
        Some e \<Rightarrow> (Inl e, w1)
      | None \<Rightarrow>
          if unique_violation (tbl_tag w1) tagType tagName
          then (Inl ''UNIQUE constraint failed: tag.tag_type, tag.tag_name'', w1)
          else (let newid = seq_tag w1 + 1 in
                (Inr newid,
                 w1\<lparr>tbl_tag := tbl_tag w1 @ [Tag newid tagType tagName], seq_tag := newid\<rparr>)))"

text \<open>The join of \<open>GetTags\<close>:
  \<open>SELECT id, tag_type, tag_name FROM tag JOIN jobtag ON jobtag.tag_id = tag.id
  WHERE jobtag.job_id = ?\<close>; the rows are listed in the order of the tag table.\<close>

definition tags_of_job :: "World \<Rightarrow> int64 \<Rightarrow> Tag list" where
  "tags_of_job w j =
     concat (map (\<lambda>t. map (\<lambda>r. t) (filter (\<lambda>r. snd r = Tag_ID t \<and> fst r = j) (tbl_jobtag w)))
                 (tbl_tag w))"

text \<open>\<open>GetTags\<close>: all tags if \<open>job\<close> is nil, else the tags that the job has.\<close>

definition GetTags :: "Env \<Rightarrow> int64 option \<Rightarrow> World \<Rightarrow> (error + Tag list) \<times> World" where
  "GetTags env job w =
     (let c = SqlSelectTags job; w1 = record_call c w in
      case fault env c of
        Some e \<Rightarrow> (Inl e, w1)
      | None \<Rightarrow>
          (case job of
             None \<Rightarrow> (Inr (tbl_tag w1), w1)
           | Some j \<Rightarrow> (Inr (tags_of_job w1 j), w1)))"

text \<open>\<open>AddTag\<close>: \<open>INSERT INTO jobtag (job_id, tag_id) VALUES (?, ?)\<close>, then the job and its
  tags are read back and handed to \<open>archive.UpdateTags\<close>.  The Go function returns the pair
  \<open>(tags, err)\<close>.\<close>

definition AddTag :: "Env \<Rightarrow> int64 \<Rightarrow> int64 \<Rightarrow> World \<Rightarrow> (Tag list \<times> error option) \<times> World" where
  "AddTag env job tag w =
     (let c = SqlInsertJobtag job tag; w1 = record_call c w in
      case fault env c of
        Some e \<Rightarrow> (([], Some e), w1)
      | None \<Rightarrow>
          (let w2 = w1\<lparr>tbl_jobtag := tbl_jobtag w1 @ [(job, tag)]\<rparr>;
               (r, w3) = FindById env job w2
           in case r of
                Inl e \<Rightarrow> (([], Some e), w3)
              | Inr j \<Rightarrow>
                  (let (r2, w4) = GetTags env (Some job) w3
                   in case r2 of
                        Inl e \<Rightarrow> (([], Some e), w4)
                      | Inr tags \<Rightarrow>
                          (let (err, w5) = UpdateTags env j tags w4 in ((tags, err), w5)))))"

definition AddTagOrCreate :: "Env \<Rightarrow> int64 \<Rightarrow> string \<Rightarrow> string \<Rightarrow> World \<Rightarrow> (error + int64) \<times> World" where
  "AddTagOrCreate env jobId tagType tagName w =
     (let ((tagId, exists), w1) = TagId env tagType tagName w;
          (created, w2) = (if \<not> exists then CreateTag env tagType tagName w1 else (Inr tagId, w1))
      in case created of
           Inl e \<Rightarrow> (Inl e, w2)
         | Inr tagId \<Rightarrow>
             (let ((tags, err), w3) = AddTag env jobId tagId w2
              in case err of
                   Some e \<Rightarrow> (Inl e, w3)
                 | None \<Rightarrow> (Inr tagId, w3)))"

section \<open>Listing jobs\<close>

text \<open>A query parameter as \<open>r.URL.Query()\<close> yields it: the key, the first value \<open>vals[0]\<close>
  and the further values.  The list of parameters is given in the order in which the
  handler's \<open>range\<close> loop visits them.\<close>

type_synonym QueryParam = "string \<times> string \<times> string list"

record QueryState =
  withMetadata :: bool
  qfilter :: JobFilter
  qpage :: PageRequest

definition query_param :: "QueryParam \<Rightarrow> QueryState \<Rightarrow> Response + QueryState" where
  "query_param kv q =
     (case kv of (key, v0, vs) \<Rightarrow>
        if key = ''state'' then
          (if list_all Valid (v0 # vs)
           then Inr (q\<lparr>qfilter := (qfilter q)\<lparr>filterState := filterState (qfilter q) @ (v0 # vs)\<rparr>\<rparr>)
           else Inl (http_Error ''invalid query parameter value: state'' 400))
        else if key = ''cluster'' then
          Inr (q\<lparr>qfilter := (qfilter q)\<lparr>filterCluster := Some v0\<rparr>\<rparr>)
        else if key = ''start-time'' then
          (let st = split_dash v0 in
           if length st \<noteq> 2 then Inl (http_Error ''invalid query parameter value: startTime'' 400)
           else case ParseInt (st ! 0) of
                  Inl e \<Rightarrow> Inl (http_Error e 400)
                | Inr from \<Rightarrow>
                    (case ParseInt (st ! 1) of
                       Inl e \<Rightarrow> Inl (http_Error e 400)
                     | Inr to \<Rightarrow>
                         Inr (q\<lparr>qfilter := (qfilter q)\<lparr>filterStartTime := Some (from, to)\<rparr>\<rparr>)))
        else if key = ''page'' then
          (case Atoi v0 of
             Inl e \<Rightarrow> Inl (http_Error e 400)
           | Inr x \<Rightarrow> Inr (q\<lparr>qpage := (qpage q)\<lparr>Page := x\<rparr>\<rparr>))
        else if key = ''items-per-page'' then
          (case Atoi v0 of
             Inl e \<Rightarrow> Inl (http_Error e 400)
           | Inr x \<Rightarrow> Inr (q\<lparr>qpage := (qpage q)\<lparr>ItemsPerPage := x\<rparr>\<rparr>))
        else if key = ''with-metadata'' then
          Inr (q\<lparr>withMetadata := True\<rparr>)
        else Inl (http_Error (''invalid query parameter: '' @ key) 400))"

fun query_loop :: "QueryParam list \<Rightarrow> QueryState \<Rightarrow> Response + QueryState" where
  "query_loop [] q = Inr q"
| "query_loop (kv # kvs) q =
     (case query_param kv q of Inl r \<Rightarrow> Inl r | Inr q' \<Rightarrow> query_loop kvs q')"

text \<open>Modelled from the spec: \<open>JobRepository.QueryJobs\<close> and \<open>archive.GetStatistics\<close>.
  Which jobs a filter and a page select, and which statistics the archive holds, is left to
  the environment.\<close>

definition QueryJobs :: "Env \<Rightarrow> JobFilter \<Rightarrow> PageRequest \<Rightarrow> World \<Rightarrow> (error + Job list) \<times> World" where
  "QueryJobs env jobFilter page w =
     (case fault env CallQueryJobs of
        Some e \<Rightarrow> (Inl e, record_call CallQueryJobs w)
      | None \<Rightarrow> (Inr (query_result env jobFilter page (tbl_job w)), record_call CallQueryJobs w))"

definition GetStatistics :: "Env \<Rightarrow> Job \<Rightarrow> World \<Rightarrow> (error + Statistics) \<times> World" where
  "GetStatistics env job w =
     (let c = CallGetStatistics (ID job) in
      (case fault env c of Some e \<Rightarrow> Inl e | None \<Rightarrow> Inr (statistics_of env job), record_call c w))"

text \<open>The loop of \<open>getJobs\<close> that builds the result list.\<close>

fun job_results :: "Env \<Rightarrow> bool \<Rightarrow> Job list \<Rightarrow> World \<Rightarrow> (Response + (Job \<times> Tag list \<times> Statistics) list) \<times> World" where
  "job_results env wm [] w = (Inr [], w)"
| "job_results env wm (job # jobs) w =
     (let (e1, w1) = (if wm then FetchMetadata env job w else (None, w)) in
      case e1 of
        Some e \<Rightarrow> (Inl (http_Error e 500), w1)
      | None \<Rightarrow>
          (let (r2, w2) = GetTags env (Some (ID job)) w1 in
           case r2 of
             Inl e \<Rightarrow> (Inl (http_Error e 500), w2)
           | Inr tags \<Rightarrow>
               (let (r3, w3) = (if MonitoringStatus job = MonitoringStatusArchivingSuccessful
                                then GetStatistics env job w2 else (Inr [], w2)) in
                case r3 of
                  Inl e \<Rightarrow> (Inl (http_Error e 500), w3)
                | Inr stats \<Rightarrow>
                    (case job_results env wm jobs w3 of
                       (Inl r, w4) \<Rightarrow> (Inl r, w4)
                     | (Inr rest, w4) \<Rightarrow> (Inr ((job, tags, stats) # rest), w4)))))"

text \<open>\<open>getJobs\<close>.  Every error after the role check is written with \<open>http.Error\<close>.  The
  result is encoded without a status or content type being set by the handler (status 200);
  a failure of the JSON encoder itself is not represented.\<close>

definition getJobs :: "Env \<Rightarrow> AuthUser option \<Rightarrow> QueryParam list \<Rightarrow> World \<Rightarrow> Response list \<times> World" where
  "getJobs env user query w =
     (if missing_role user then ([forbidden], w)
      else
        case query_loop query
               \<lparr>withMetadata = False,
                qfilter = \<lparr>filterState = [], filterCluster = None, filterStartTime = None\<rparr>,
                qpage = \<lparr>ItemsPerPage = 25, Page = 1\<rparr>\<rparr> of
          Inl r \<Rightarrow> ([r], w)
        | Inr q \<Rightarrow>
            (let (r, w1) = QueryJobs env (qfilter q) (qpage q) w in
             case r of
               Inl e \<Rightarrow> ([http_Error e 500], w1)
             | Inr jobs \<Rightarrow>
                 (case job_results env (withMetadata q) jobs w1 of
                    (Inl resp, w2) \<Rightarrow> ([resp], w2)
                  | (Inr results, w2) \<Rightarrow> ([Response 200 [] (JobsBody results)], w2))))"

section \<open>Starting a job\<close>

text \<open>The loop over \<open>req.Tags\<close> at the end of \<open>startJob\<close>; it stops at the first error.\<close>

fun add_tags :: "Env \<Rightarrow> int64 \<Rightarrow> Tag list \<Rightarrow> World \<Rightarrow> error option \<times> World" where
  "add_tags env jobId [] w = (None, w)"
| "add_tags env jobId (tag # tags) w =
     (case AddTagOrCreate env jobId (Tag_Type tag) (Tag_Name tag) w of
        (Inl e, w1) \<Rightarrow> (Some e, w1)
      | (Inr tagId, w1) \<Rightarrow> add_tags env jobId tags w1)"

text \<open>The second half of \<open>startJob\<close>: the insert, then the tags of the request, then
  the response.  When a tag cannot be added the handler writes twice, with \<open>http.Error\<close>
  and then with \<open>handleError\<close>; both writes are listed.\<close>

definition startJob_insert :: "Env \<Rightarrow> JobMeta \<Rightarrow> World \<Rightarrow> Response list \<times> World" where
  "startJob_insert env req w =
     (let (started, w1) = Start env req w in
      case started of
        Inl e \<Rightarrow> ([handleError (''insert into database failed: '' @ e) 500], w1)
      | Inr newid \<Rightarrow>
          (let (err, w2) = add_tags env newid (metaTags req) w1 in
           case err of
             Some e \<Rightarrow>
               ([http_Error e 500,
                 handleError (''adding tag to new job '' @ show_int (sint newid)
                                @ '' failed: '' @ e) 500], w2)
           | None \<Rightarrow> ([Response 201 ''application/json'' (StartJobApiResponse newid)], w2)))"

text \<open>\<open>startJob\<close>.  The request body is given as the outcome of \<open>decode\<close> into a
  \<open>schema.JobMeta\<close> preset with \<open>schema.JobDefaults\<close>.  The duplicate check and the insert
  run under \<open>api.RepositoryMutex\<close>; requests are handled one after the other here.\<close>

definition startJob :: "Env \<Rightarrow> AuthUser option \<Rightarrow> error + JobMeta \<Rightarrow> World \<Rightarrow> Response list \<times> World" where
  "startJob env user decoded w =
     (if missing_role user then ([forbidden], w)
      else
        case decoded of
          Inl e \<Rightarrow> ([handleError (''parsing request body failed: '' @ e) 400], w)
        | Inr req0 \<Rightarrow>
            (let req = (if metaState req0 = [] then req0\<lparr>metaState := JobStateRunning\<rparr> else req0) in
             case SanityChecks env req of
               Some e \<Rightarrow> ([handleError e 400], w)
             | None \<Rightarrow>
                 (let (found, w1) = FindAll env (metaJobID req) (metaCluster req) w in
                  case found of
                    Inl e \<Rightarrow>
                      if e \<noteq> ErrNoRows
                      then ([handleError (''checking for duplicate failed: '' @ e) 500], w1)
                      else startJob_insert env req w1
                  | Inr jobs \<Rightarrow>
                      (case find (\<lambda>job. metaStartTime req - StartTimeUnix job <s 86400) jobs of
                         Some job \<Rightarrow>
                           ([handleError
                               (''a job with that jobId, cluster and startTime already exists: dbid: ''
                                  @ show_int (sint (ID job))) 422], w1)
                       | None \<Rightarrow> startJob_insert env req w1))))"

section \<open>Stopping a job\<close>

text \<open>The detached unit of work that \<open>checkAndHandleStopJob\<close> starts with \<open>go func()\<close>;
  it is run to its end, \<open>defer api.OngoingArchivings.Done()\<close> last.\<close>

definition archiving :: "Env \<Rightarrow> Job \<Rightarrow> World \<Rightarrow> World" where
  "archiving env job w =
     (let (err, w1) = FetchMetadata env job w in
      case err of
        Some e \<Rightarrow>
          record_call OngoingArchivingsDone
            (snd (UpdateMonitoringStatus env (ID job) MonitoringStatusArchivingFailed w1))
      | None \<Rightarrow>
          (let (res, w2) = ArchiveJob env job w1 in
           case res of
             Inl e \<Rightarrow>
               record_call OngoingArchivingsDone
                 (snd (UpdateMonitoringStatus env (ID job) MonitoringStatusArchivingFailed w2))
           | Inr stats \<Rightarrow>
               record_call OngoingArchivingsDone
                 (snd (Archive env (ID job) MonitoringStatusArchivingSuccessful stats w2))))"

definition checkAndHandleStopJob :: "Env \<Rightarrow> Job option \<Rightarrow> StopJobApiRequest \<Rightarrow> World \<Rightarrow> Response list \<times> World" where
  "checkAndHandleStopJob env jobp req w =
     (case jobp of
        None \<Rightarrow>
          ([handleError ''stopTime must be larger than startTime and only running jobs can be stopped'' 400], w)
      | Some job \<Rightarrow>
          if StopTime req \<le>s StartTimeUnix job \<or> State job \<noteq> JobStateRunning
          then ([handleError ''stopTime must be larger than startTime and only running jobs can be stopped'' 400], w)
          else if reqState req \<noteq> [] \<and> \<not> Valid (reqState req)
          then ([handleError (''invalid job state: '' @ gosyntax (reqState req)) 400], w)
          else
            (let state = (if reqState req = [] then JobStateCompleted else reqState req);
                 job1 = job\<lparr>Duration := ucast (StopTime req - StartTimeUnix job), State := state\<rparr>;
                 (err, w1) = Stop env (ID job1) (Duration job1) (State job1) (MonitoringStatus job1) w
             in case err of
                  Some e \<Rightarrow> ([handleError (''marking job as stopped failed: '' @ e) 500], w1)
                | None \<Rightarrow>
                    (let resp = Response 200 ''application/json'' (JobBody job1) in
                     if MonitoringStatus job1 = MonitoringStatusDisabled
                     then ([resp], w1)
                     else ([resp], archiving env job1 (record_call OngoingArchivingsAdd w1)))))"

text \<open>\<open>stopJobById\<close>: the body is given as the outcome of \<open>decode\<close>, the path variable
  \<open>id\<close> as \<open>mux.Vars(r)["id"]\<close> yields it.\<close>

definition stopJobById :: "Env \<Rightarrow> AuthUser option \<Rightarrow> error + StopJobApiRequest \<Rightarrow> string option \<Rightarrow> World \<Rightarrow> Response list \<times> World" where
  "stopJobById env user decoded idvar w =
     (if missing_role user then ([forbidden], w)
      else
        case decoded of
          Inl e \<Rightarrow> ([handleError (''parsing request body failed: '' @ e) 400], w)
        | Inr req \<Rightarrow>
            (case idvar of
               None \<Rightarrow> ([handleError ''the parameter 'id' is required'' 400], w)
             | Some ids \<Rightarrow>
                 (case ParseInt ids of
                    Inl e \<Rightarrow> ([handleError (''integer expected in path for id: '' @ e) 400], w)
                  | Inr jobId \<Rightarrow>
                      (let (found, w1) = FindById env jobId w in
                       case found of
                         Inl e \<Rightarrow> ([handleError (''finding job failed: '' @ e) 422], w1)
                       | Inr job \<Rightarrow> checkAndHandleStopJob env (Some job) req w1))))"

definition stopJobByRequest :: "Env \<Rightarrow> AuthUser option \<Rightarrow> error + StopJobApiRequest \<Rightarrow> World \<Rightarrow> Response list \<times> World" where
  "stopJobByRequest env user decoded w =
     (if missing_role user then ([forbidden], w)
      else
        case decoded of
          Inl e \<Rightarrow> ([handleError (''parsing request body failed: '' @ e) 400], w)
        | Inr req \<Rightarrow>
            (case reqJobId req of
               None \<Rightarrow> ([handleError ''the field 'jobId' is required'' 400], w)
             | Some jobId \<Rightarrow>
                 (let (found, w1) = Find env jobId (reqCluster req) (reqStartTime req) w in
                  case found of
                    Inl e \<Rightarrow> ([handleError (''finding job failed: '' @ e) 422], w1)
                  | Inr job \<Rightarrow> checkAndHandleStopJob env (Some job) req w1)))"

section \<open>Deleting jobs\<close>

definition deleteJobBefore :: "Env \<Rightarrow> AuthUser option \<Rightarrow> string option \<Rightarrow> World \<Rightarrow> Response list \<times> World" where
  "deleteJobBefore env user tsvar w =
     (if missing_role user then ([forbidden], w)
      else
        case tsvar of
          None \<Rightarrow> ([handleError ''the parameter 'ts' is required'' 400], w)
        | Some tss \<Rightarrow>
            (case ParseInt tss of
               Inl e \<Rightarrow> ([handleError (''integer expected in path for ts: '' @ e) 400], w)
             | Inr ts \<Rightarrow>
                 (let (deleted, w1) = DeleteJobsBefore env ts w in
                  case deleted of
                    Inl e \<Rightarrow> ([handleError (''deleting jobs failed: '' @ e) 422], w1)
                  | Inr cnt \<Rightarrow>
                      ([Response 200 ''application/json''
                          (DeleteJobApiResponse (''Successfully deleted '' @ show_int cnt @ '' jobs''))],
                       w1))))"

section \<open>Observations used in the properties\<close>

text \<open>The calls made between two states of the world.\<close>

definition new_calls :: "World \<Rightarrow> World \<Rightarrow> Call list" where
  "new_calls w w' = drop (length (trace w)) (trace w')"

text \<open>The job as \<open>checkAndHandleStopJob\<close> updates it before the store is called.\<close>

definition stopped :: "Job \<Rightarrow> StopJobApiRequest \<Rightarrow> Job" where
  "stopped job req =
     job\<lparr>Duration := ucast (StopTime req - StartTimeUnix job),
         State := (if reqState req = [] then JobStateCompleted else reqState req)\<rparr>"

text \<open>The status with which a stop request is refused before the store is updated, given
  the outcome of the job lookup: 422 when the lookup failed, 400 when the job found does not
  start before the requested stop time or is not running.\<close>

definition stop_refused :: "error + Job \<Rightarrow> StopJobApiRequest \<Rightarrow> nat option" where
  "stop_refused found req =
     (case found of
        Inl e \<Rightarrow> Some 422
      | Inr job \<Rightarrow>
          if StopTime req \<le>s StartTimeUnix job \<or> State job \<noteq> JobStateRunning then Some 400
          else None)"

section \<open>Example data\<close>

definition env_ok :: Env where
  "env_ok = \<lparr>fault = (\<lambda>c. None), archiver = (\<lambda>j. [(''flops_any'', JobStatistics ''F/s'' 2 1 3)]),
              SanityChecks = (\<lambda>m. None), statistics_of = (\<lambda>j. []),
              query_result = (\<lambda>f p rows. rows)\<rparr>"

definition api_user :: AuthUser where
  "api_user = \<lparr>Username = ''slurm'', Roles = [''api'']\<rparr>"

definition job_fritz :: Job where
  "job_fritz = \<lparr>ID = 1, JobID = 123000, User = ''alice'', Cluster = ''fritz'',
                 StartTimeUnix = 1649723812, Duration = 0, State = ''running'',
                 MonitoringStatus = MonitoringStatusPending\<rparr>"

definition world_empty :: World where
  "world_empty = \<lparr>tbl_job = [], tbl_stats = [], tbl_tag = [], tbl_jobtag = [], seq_job = 0,
                   seq_tag = 0, archive_tags = [], trace = []\<rparr>"

definition world_fritz :: World where
  "world_fritz = world_empty\<lparr>tbl_job := [job_fritz], seq_job := 1\<rparr>"

definition meta_fritz :: JobMeta where
  "meta_fritz = \<lparr>metaJobID = 123000, metaUser = ''alice'', metaCluster = ''fritz'',
                  metaStartTime = 1649723812, metaState = [],
                  metaMonitoringStatus = MonitoringStatusPending, metaTags = []\<rparr>"

definition stop_request :: "int64 \<Rightarrow> JobState \<Rightarrow> StopJobApiRequest" where
  "stop_request t s = \<lparr>StopTime = t, reqState = s, reqJobId = None, reqCluster = None,
                        reqStartTime = None\<rparr>"


text \<open>A job table with three jobs started at 100, 200 and 300.\<close>

definition world_three :: World where
  "world_three =
     world_empty\<lparr>tbl_job := [job_fritz\<lparr>ID := 1, StartTimeUnix := 100\<rparr>,
                             job_fritz\<lparr>ID := 2, JobID := 123001, StartTimeUnix := 200\<rparr>,
                             job_fritz\<lparr>ID := 3, JobID := 123002, StartTimeUnix := 300\<rparr>],
                 seq_job := 3\<rparr>"

text \<open>An environment whose sanity checks refuse every job specification.\<close>

definition env_strict :: Env where
  "env_strict = env_ok\<lparr>SanityChecks := (\<lambda>m. Some ''no such cluster'')\<rparr>"



section \<open>Auxiliary facts\<close>

lemma sint_ucast_diff:
  fixes a b :: int64
  shows "sint (ucast (a - b) :: int32) = (sint a - sint b + 2 ^ 31) mod 2 ^ 32 - 2 ^ 31"
proof -
  have "sint (word_of_int (uint (a - b)) :: int32) = signed_take_bit (LENGTH(32) - 1) (uint (a - b))"
    by (rule sint_sbintrunc')
  then have "sint (ucast (a - b) :: int32) = signed_take_bit 31 (uint (a - b))"
    by (simp only: ucast_eq) simp
  also have "uint (a - b) = take_bit 64 (sint (a - b))"
    by (simp add: uint_sint)
  also have "sint (a - b) = signed_take_bit 63 (sint a - sint b)"
    by (simp add: sint_word_diff)
  also have "take_bit 64 (signed_take_bit 63 (sint a - sint b)) = take_bit 64 (sint a - sint b)"
    by (simp add: take_bit_signed_take_bit)
  also have "signed_take_bit 31 (take_bit 64 (sint a - sint b)) = signed_take_bit (31::nat) (sint a - sint b)"
    by (simp add: signed_take_bit_take_bit)
  also have "\<dots> = (sint a - sint b + 2 ^ 31) mod 2 ^ 32 - 2 ^ 31"
    by (simp add: signed_take_bit_eq_take_bit_shift take_bit_eq_mod)
  finally show ?thesis .
qed

lemma trace_record_call [simp]: "trace (record_call c w) = trace w @ [c]"
  by (simp add: record_call_def)

lemma tables_record_call [simp]:
  "tbl_job (record_call c w) = tbl_job w"
  "tbl_stats (record_call c w) = tbl_stats w"
  "tbl_tag (record_call c w) = tbl_tag w"
  "tbl_jobtag (record_call c w) = tbl_jobtag w"
  "seq_job (record_call c w) = seq_job w"
  "seq_tag (record_call c w) = seq_tag w"
  "archive_tags (record_call c w) = archive_tags w"
  by (simp_all add: record_call_def)

lemma statusCode_handleError [simp]: "statusCode (handleError e c) = c"
  by (simp add: handleError_def)

lemma stop_success:
  assumes run: "checkAndHandleStopJob env (Some job) req w = (rs, w')"
    and ok: "statusCode (hd rs) = 200"
  shows "\<not> StopTime req \<le>s StartTimeUnix job"
    and "State job = JobStateRunning"
    and "reqState req = [] \<or> Valid (reqState req)"
    and "rs = [Response 200 ''application/json'' (JobBody (stopped job req))]"
    and "fst (Stop env (ID job) (Duration (stopped job req)) (State (stopped job req)) (MonitoringStatus job) w) = None"
    and "w' = (let w1 = snd (Stop env (ID job) (Duration (stopped job req)) (State (stopped job req)) (MonitoringStatus job) w)
               in if MonitoringStatus job = MonitoringStatusDisabled then w1
                  else archiving env (stopped job req) (record_call OngoingArchivingsAdd w1))"
  using run ok
  by (auto simp: checkAndHandleStopJob_def stopped_def Let_def split: if_splits option.splits prod.splits)

lemma UpdateMonitoringStatus_frame:
  "trace (snd (UpdateMonitoringStatus env jobId m w)) = trace w @ [CallUpdateMonitoringStatus jobId m]"
  "tbl_stats (snd (UpdateMonitoringStatus env jobId m w)) = tbl_stats w"
  "map (\<lambda>r. (ID r, Duration r, State r)) (tbl_job (snd (UpdateMonitoringStatus env jobId m w))) =
   map (\<lambda>r. (ID r, Duration r, State r)) (tbl_job w)"
  by (simp_all add: UpdateMonitoringStatus_def Let_def split: option.splits)

lemma UpdateMonitoringStatus_rows:
  assumes "fault env (CallUpdateMonitoringStatus jobId m) = None"
    and "r \<in> set (tbl_job (snd (UpdateMonitoringStatus env jobId m w)))" and "ID r = jobId"
  shows "MonitoringStatus r = m"
proof -
  from assms(1,2) obtain j where "j \<in> set (tbl_job w)"
    and r: "r = (if ID j = jobId then j\<lparr>MonitoringStatus := m\<rparr> else j)"
    by (auto simp: UpdateMonitoringStatus_def Let_def record_call_def)
  with assms(3) show ?thesis by (cases "ID j = jobId") simp_all
qed

lemma Archive_frame:
  "trace (snd (Archive env jobId m st w)) = trace w @ [CallArchive jobId m st]"
  "map (\<lambda>r. (ID r, Duration r, State r)) (tbl_job (snd (Archive env jobId m st w))) =
   map (\<lambda>r. (ID r, Duration r, State r)) (tbl_job w)"
  by (simp_all add: Archive_def Let_def split: option.splits)

lemma Archive_rows:
  assumes "fault env (CallArchive jobId m st) = None"
  shows "tbl_stats (snd (Archive env jobId m st w)) = (jobId, st) # filter (\<lambda>r. fst r \<noteq> jobId) (tbl_stats w)"
    and "r \<in> set (tbl_job (snd (Archive env jobId m st w))) \<Longrightarrow> ID r = jobId \<Longrightarrow> MonitoringStatus r = m"
proof -
  show "tbl_stats (snd (Archive env jobId m st w)) = (jobId, st) # filter (\<lambda>r. fst r \<noteq> jobId) (tbl_stats w)"
    using assms by (simp add: Archive_def Let_def record_call_def)
next
  assume a: "r \<in> set (tbl_job (snd (Archive env jobId m st w)))" and b: "ID r = jobId"
  from assms a obtain j where "j \<in> set (tbl_job w)"
    and r: "r = (if ID j = jobId then j\<lparr>MonitoringStatus := m\<rparr> else j)"
    by (auto simp: Archive_def Let_def record_call_def)
  with b show "MonitoringStatus r = m" by (cases "ID j = jobId") simp_all
qed

lemma archiving_cases:
  "archiving env job w =
     record_call OngoingArchivingsDone
       (case fault env (CallFetchMetadata (ID job)) of
          Some e \<Rightarrow>
            snd (UpdateMonitoringStatus env (ID job) MonitoringStatusArchivingFailed
                   (record_call (CallFetchMetadata (ID job)) w))
        | None \<Rightarrow>
            (case fault env (CallArchiveJob job) of
               Some e \<Rightarrow>
                 snd (UpdateMonitoringStatus env (ID job) MonitoringStatusArchivingFailed
                        (record_call (CallArchiveJob job) (record_call (CallFetchMetadata (ID job)) w)))
             | None \<Rightarrow>
                 snd (Archive env (ID job) MonitoringStatusArchivingSuccessful (archiver env job)
                        (record_call (CallArchiveJob job) (record_call (CallFetchMetadata (ID job)) w)))))"
  by (simp add: archiving_def FetchMetadata_def ArchiveJob_def Let_def split: option.splits)

lemma archiving_fetch_failed:
  assumes "fault env (CallFetchMetadata (ID job)) = Some e"
  shows "trace (archiving env job w) = trace w @
           [CallFetchMetadata (ID job),
            CallUpdateMonitoringStatus (ID job) MonitoringStatusArchivingFailed,
            OngoingArchivingsDone]"
    and "tbl_stats (archiving env job w) = tbl_stats w"
    and "fault env (CallUpdateMonitoringStatus (ID job) MonitoringStatusArchivingFailed) = None \<Longrightarrow>
         r \<in> set (tbl_job (archiving env job w)) \<Longrightarrow> ID r = ID job \<Longrightarrow>
         MonitoringStatus r = MonitoringStatusArchivingFailed"
  using assms
  by (simp_all add: archiving_cases UpdateMonitoringStatus_frame UpdateMonitoringStatus_rows)

lemma archiving_archiver_failed:
  assumes "fault env (CallFetchMetadata (ID job)) = None"
    and "fault env (CallArchiveJob job) = Some e"
  shows "trace (archiving env job w) = trace w @
           [CallFetchMetadata (ID job), CallArchiveJob job,
            CallUpdateMonitoringStatus (ID job) MonitoringStatusArchivingFailed,
            OngoingArchivingsDone]"
    and "tbl_stats (archiving env job w) = tbl_stats w"
    and "fault env (CallUpdateMonitoringStatus (ID job) MonitoringStatusArchivingFailed) = None \<Longrightarrow>
         r \<in> set (tbl_job (archiving env job w)) \<Longrightarrow> ID r = ID job \<Longrightarrow>
         MonitoringStatus r = MonitoringStatusArchivingFailed"
  using assms
  by (simp_all add: archiving_cases UpdateMonitoringStatus_frame UpdateMonitoringStatus_rows)

lemma archiving_succeeded:
  assumes "fault env (CallFetchMetadata (ID job)) = None"
    and "fault env (CallArchiveJob job) = None"
  shows "trace (archiving env job w) = trace w @
           [CallFetchMetadata (ID job), CallArchiveJob job,
            CallArchive (ID job) MonitoringStatusArchivingSuccessful (archiver env job),
            OngoingArchivingsDone]"
    and "fault env (CallArchive (ID job) MonitoringStatusArchivingSuccessful (archiver env job)) = None \<Longrightarrow>
         tbl_stats (archiving env job w) =
           (ID job, archiver env job) # filter (\<lambda>r. fst r \<noteq> ID job) (tbl_stats w)"
    and "fault env (CallArchive (ID job) MonitoringStatusArchivingSuccessful (archiver env job)) = None \<Longrightarrow>
         r \<in> set (tbl_job (archiving env job w)) \<Longrightarrow> ID r = ID job \<Longrightarrow>
         MonitoringStatus r = MonitoringStatusArchivingSuccessful"
  using assms
  by (simp_all add: archiving_cases Archive_frame Archive_rows)

lemma archiving_trace_prefix: "\<exists>cs. trace (archiving env job w) = trace w @ cs"
proof (cases "fault env (CallFetchMetadata (ID job))")
  case (Some e)
  then show ?thesis by (simp add: archiving_fetch_failed(1))
next
  case None
  then show ?thesis
    by (cases "fault env (CallArchiveJob job)")
       (simp_all add: archiving_archiver_failed(1) archiving_succeeded(1))
qed

lemma archiving_keeps_rows:
  "map (\<lambda>r. (ID r, Duration r, State r)) (tbl_job (archiving env job w)) =
   map (\<lambda>r. (ID r, Duration r, State r)) (tbl_job w)"
  by (simp add: archiving_cases UpdateMonitoringStatus_frame Archive_frame split: option.splits)

lemma Stop_rows:
  assumes "fst (Stop env jobId d s m w) = None"
    and "r \<in> set (tbl_job (snd (Stop env jobId d s m w)))" and "ID r = jobId"
  shows "Duration r = d \<and> State r = s"
proof -
  from assms(1) have "fault env (CallStop jobId d s m) = None"
    by (simp add: Stop_def Let_def split: option.splits)
  with assms(2) obtain j where "j \<in> set (tbl_job w)"
    and r: "r = (if ID j = jobId then j\<lparr>Duration := d, State := s, MonitoringStatus := m\<rparr> else j)"
    by (auto simp: Stop_def Let_def record_call_def)
  with assms(3) show ?thesis by (cases "ID j = jobId") simp_all
qed

lemma Stop_trace: "trace (snd (Stop env jobId d s m w)) = trace w @ [CallStop jobId d s m]"
  by (simp add: Stop_def Let_def split: option.splits)

lemma sint_ucast64:
  fixes x :: int64
  shows "sint (ucast x :: int32) = (sint x + 2 ^ 31) mod 2 ^ 32 - 2 ^ 31"
  using sint_ucast_diff [of x 0] by simp

lemma new_calls_append [simp]: "trace w' = trace w @ cs \<Longrightarrow> new_calls w w' = cs"
  by (simp add: new_calls_def)

lemma stop_success_trace:
  assumes run: "checkAndHandleStopJob env (Some job) req w = (rs, w')"
    and ok: "statusCode (hd rs) = 200"
  shows "\<exists>cs. trace w' = trace w @
           CallStop (ID job) (Duration (stopped job req)) (State (stopped job req)) (MonitoringStatus job) # cs"
proof (cases "MonitoringStatus job = MonitoringStatusDisabled")
  case True
  with stop_success(6) [OF run ok] show ?thesis
    by (simp add: Let_def Stop_trace)
next
  case False
  let ?w1 = "snd (Stop env (ID job) (Duration (stopped job req)) (State (stopped job req)) (MonitoringStatus job) w)"
  from False stop_success(6) [OF run ok]
  have w': "w' = archiving env (stopped job req) (record_call OngoingArchivingsAdd ?w1)"
    by (simp add: Let_def)
  obtain cs where "trace w' = trace (record_call OngoingArchivingsAdd ?w1) @ cs"
    unfolding w' using archiving_trace_prefix by blast
  then show ?thesis by (simp add: Stop_trace)
qed

lemma stop_success_rows:
  assumes run: "checkAndHandleStopJob env (Some job) req w = (rs, w')"
    and ok: "statusCode (hd rs) = 200"
    and r: "r \<in> set (tbl_job w')" "ID r = ID job"
  shows "Duration r = Duration (stopped job req) \<and> State r = State (stopped job req)"
proof -
  let ?d = "Duration (stopped job req)" and ?s = "State (stopped job req)"
  let ?w1 = "snd (Stop env (ID job) ?d ?s (MonitoringStatus job) w)"
  have keep: "map (\<lambda>r. (ID r, Duration r, State r)) (tbl_job w') =
              map (\<lambda>r. (ID r, Duration r, State r)) (tbl_job ?w1)"
    using stop_success(6) [OF run ok]
    by (cases "MonitoringStatus job = MonitoringStatusDisabled")
       (simp_all add: Let_def archiving_keeps_rows)
  from r(1) have "(ID r, Duration r, State r) \<in> set (map (\<lambda>r. (ID r, Duration r, State r)) (tbl_job w'))"
    by force
  with keep obtain r1 where r1: "r1 \<in> set (tbl_job ?w1)"
    and eq: "ID r1 = ID r" "Duration r1 = Duration r" "State r1 = State r"
    by auto
  from Stop_rows [OF stop_success(5) [OF run ok] r1] eq r(2) show ?thesis by simp
qed

lemmas stop_defs =
  checkAndHandleStopJob_def Stop_def archiving_def FetchMetadata_def ArchiveJob_def Archive_def
  UpdateMonitoringStatus_def record_call_def handleError_def StatusText_def Valid_def
  JobStateRunning_def JobStateCompleted_def Let_def

lemmas example_defs =
  env_ok_def api_user_def job_fritz_def world_empty_def world_fritz_def meta_fritz_def
  stop_request_def


lemma checkAndHandleStopJob_refused:
  assumes "jobp = None \<or> (\<exists>job. jobp = Some job \<and> (StopTime req \<le>s StartTimeUnix job \<or> State job \<noteq> JobStateRunning))"
  shows "checkAndHandleStopJob env jobp req w =
           ([handleError ''stopTime must be larger than startTime and only running jobs can be stopped'' 400], w)"
  using assms by (auto simp: checkAndHandleStopJob_def)

lemma FindById_world: "snd (FindById env jobId w) = record_call (CallFindById jobId) w"
  by (simp add: FindById_def Let_def split: option.splits)

lemma Find_world: "snd (Find env jobId cl st w) = record_call (CallFind jobId cl st) w"
  by (simp add: Find_def Let_def split: option.splits)

lemma new_calls_record_call [simp]: "new_calls w (record_call c w) = [c]"
  by (simp add: new_calls_def)

lemmas parse_defs = ParseInt_def Atoi_def parse_decimal_def digit_of_def gosyntax_def

lemmas lookup_defs = FindById_def Find_def FindAll_def ErrNoRows_def

lemmas auth_defs = missing_role_def HasRole_def RoleApi_def forbidden_def

lemma deleteJobBefore_success:
  assumes "deleteJobBefore env user tsvar w = (rs, w')" and "statusCode (hd rs) = 200"
  shows "\<exists>s ts. tsvar = Some s \<and> ParseInt s = Inr ts
           \<and> fault env (CallDeleteJobsBefore ts) = None
           \<and> (rs, w') = (case DeleteJobsBefore env ts w of
                 (Inr cnt, w1) \<Rightarrow>
                   ([Response 200 ''application/json''
                       (DeleteJobApiResponse (''Successfully deleted '' @ show_int cnt @ '' jobs''))], w1)
               | (Inl e, w1) \<Rightarrow> ([], w1))"
  using assms
  by (auto simp: deleteJobBefore_def forbidden_def DeleteJobsBefore_def Let_def
           split: if_splits option.splits sum.splits prod.splits)




lemma tags_of_job_record_call [simp]: "tags_of_job (record_call c w) j = tags_of_job w j"
  by (simp add: tags_of_job_def)













section \<open>Properties\<close>

text \<open>
  C1.  The duplicate check of \<open>startJob\<close> compares the signed difference
  \<open>req.StartTime - job.StartTimeUnix\<close> with 86400, not its absolute value.  A start request
  for (123000, "fritz") whose start time lies 100000 seconds before that of the existing
  job with database id 1 is therefore refused as a duplicate with status 422, although
  the two start times are more than 86400 seconds apart.
\<close>

theorem startJob_rejects_much_earlier_start:
  "tbl_job world_fritz = [job_fritz]
   \<and> JobID job_fritz = 123000 \<and> Cluster job_fritz = ''fritz''
   \<and> 86400 \<le> \<bar>sint (1649623812 :: int64) - sint (StartTimeUnix job_fritz)\<bar>
   \<and> fst (startJob env_ok (Some api_user) (Inr (meta_fritz\<lparr>metaStartTime := 1649623812\<rparr>)) world_fritz)
       = [Response 422 ''application/json''
            (ErrorResponse ''Unprocessable Entity''
               ''a job with that jobId, cluster and startTime already exists: dbid: 1'')]"
  by (simp add: startJob_def auth_defs lookup_defs stop_defs example_defs show_int_def show_digits.simps char_of_def)

text \<open>
  C2 (amended).  For every stop request of a requester who passes the role check, with a
  decoded body and a job id: if the lookup of the job fails (the job does not exist), the
  request is answered with status 422; if the job found does not start before the requested
  stop time, or is not running, it is answered with status 400.  In both cases the lookup is
  the only call made: the store's \<open>Stop\<close> is not invoked and the job table is unchanged.
  \<open>checkAndHandleStopJob\<close> itself answers a nil job with status 400 and makes no call.
\<close>

theorem stop_refused_leaves_store_unchanged:
  assumes "\<not> missing_role user"
  shows "(ParseInt ids = Inr jobId \<and> stop_refused (fst (FindById env jobId w)) req = Some code \<longrightarrow>
            (\<exists>msg. fst (stopJobById env user (Inr req) (Some ids) w) = [handleError msg code])
            \<and> new_calls w (snd (stopJobById env user (Inr req) (Some ids) w)) = [CallFindById jobId]
            \<and> tbl_job (snd (stopJobById env user (Inr req) (Some ids) w)) = tbl_job w)
       \<and> (reqJobId req = Some jid
            \<and> stop_refused (fst (Find env jid (reqCluster req) (reqStartTime req) w)) req = Some code \<longrightarrow>
            (\<exists>msg. fst (stopJobByRequest env user (Inr req) w) = [handleError msg code])
            \<and> new_calls w (snd (stopJobByRequest env user (Inr req) w))
                = [CallFind jid (reqCluster req) (reqStartTime req)]
            \<and> tbl_job (snd (stopJobByRequest env user (Inr req) w)) = tbl_job w)
       \<and> checkAndHandleStopJob env None req w =
            ([handleError ''stopTime must be larger than startTime and only running jobs can be stopped'' 400], w)"
proof (intro conjI impI)
  assume h: "ParseInt ids = Inr jobId \<and> stop_refused (fst (FindById env jobId w)) req = Some code"
  let ?f = "FindById env jobId w"
  have f: "?f = (fst ?f, record_call (CallFindById jobId) w)"
    using FindById_world [of env jobId w] by (cases ?f) simp
  show "\<exists>msg. fst (stopJobById env user (Inr req) (Some ids) w) = [handleError msg code]"
    using assms h f
    by (cases "fst ?f")
       (auto simp: stopJobById_def stop_refused_def checkAndHandleStopJob_refused split: if_splits prod.splits)
  show "new_calls w (snd (stopJobById env user (Inr req) (Some ids) w)) = [CallFindById jobId]"
    using assms h f
    by (cases "fst ?f")
       (auto simp: stopJobById_def stop_refused_def checkAndHandleStopJob_refused split: if_splits prod.splits)
  show "tbl_job (snd (stopJobById env user (Inr req) (Some ids) w)) = tbl_job w"
    using assms h f
    by (cases "fst ?f")
       (auto simp: stopJobById_def stop_refused_def checkAndHandleStopJob_refused split: if_splits prod.splits)
next
  assume h: "reqJobId req = Some jid
             \<and> stop_refused (fst (Find env jid (reqCluster req) (reqStartTime req) w)) req = Some code"
  let ?f = "Find env jid (reqCluster req) (reqStartTime req) w"
  have f: "?f = (fst ?f, record_call (CallFind jid (reqCluster req) (reqStartTime req)) w)"
    using Find_world [of env jid "reqCluster req" "reqStartTime req" w] by (cases ?f) simp
  show "\<exists>msg. fst (stopJobByRequest env user (Inr req) w) = [handleError msg code]"
    using assms h f
    by (cases "fst ?f")
       (auto simp: stopJobByRequest_def stop_refused_def checkAndHandleStopJob_refused split: if_splits prod.splits)
  show "new_calls w (snd (stopJobByRequest env user (Inr req) w))
          = [CallFind jid (reqCluster req) (reqStartTime req)]"
    using assms h f
    by (cases "fst ?f")
       (auto simp: stopJobByRequest_def stop_refused_def checkAndHandleStopJob_refused split: if_splits prod.splits)
  show "tbl_job (snd (stopJobByRequest env user (Inr req) w)) = tbl_job w"
    using assms h f
    by (cases "fst ?f")
       (auto simp: stopJobByRequest_def stop_refused_def checkAndHandleStopJob_refused split: if_splits prod.splits)
next
  show "checkAndHandleStopJob env None req w =
          ([handleError ''stopTime must be larger than startTime and only running jobs can be stopped'' 400], w)"
    by (simp add: checkAndHandleStopJob_refused)
qed

text \<open>The property at two concrete requests: stopping job 1 at its own start time, and
  stopping by an external job id that no job has.\<close>

theorem stop_refused_leaves_store_unchanged_witness:
  "\<not> missing_role (Some api_user)
   \<and> ParseInt ''1'' = Inr 1
   \<and> stop_refused (fst (FindById env_ok 1 world_fritz)) (stop_request 1649723812 ''completed'') = Some 400
   \<and> (\<exists>msg. fst (stopJobById env_ok (Some api_user) (Inr (stop_request 1649723812 ''completed''))
                     (Some ''1'') world_fritz) = [handleError msg 400])
   \<and> tbl_job (snd (stopJobById env_ok (Some api_user) (Inr (stop_request 1649723812 ''completed''))
                      (Some ''1'') world_fritz)) = [job_fritz]
   \<and> reqJobId ((stop_request 1649727412 [])\<lparr>reqJobId := Some 77\<rparr>) = Some 77
   \<and> stop_refused (fst (Find env_ok 77 None None world_fritz))
        ((stop_request 1649727412 [])\<lparr>reqJobId := Some 77\<rparr>) = Some 422
   \<and> (\<exists>msg. fst (stopJobByRequest env_ok (Some api_user)
                     (Inr ((stop_request 1649727412 [])\<lparr>reqJobId := Some 77\<rparr>)) world_fritz)
              = [handleError msg 422])
   \<and> new_calls world_fritz
        (snd (stopJobByRequest env_ok (Some api_user)
                (Inr ((stop_request 1649727412 [])\<lparr>reqJobId := Some 77\<rparr>)) world_fritz))
       = [CallFind 77 None None]"
proof -
  let ?r1 = "stop_request 1649723812 ''completed''"
  let ?r2 = "(stop_request 1649727412 [])\<lparr>reqJobId := Some 77\<rparr>"
  have auth: "\<not> missing_role (Some api_user)"
    by (simp add: auth_defs example_defs)
  have p: "ParseInt ''1'' = Inr 1"
    by (simp add: parse_defs)
  have r1: "stop_refused (fst (FindById env_ok 1 world_fritz)) ?r1 = Some 400"
    by (simp add: stop_refused_def lookup_defs example_defs record_call_def)
  have j2: "reqJobId ?r2 = Some 77" by simp
  have c2: "reqCluster ?r2 = None" "reqStartTime ?r2 = None"
    by (simp_all add: stop_request_def)
  have r2: "stop_refused (fst (Find env_ok 77 (reqCluster ?r2) (reqStartTime ?r2) world_fritz)) ?r2 = Some 422"
    by (simp add: stop_refused_def lookup_defs example_defs record_call_def)
  have tbl: "tbl_job world_fritz = [job_fritz]"
    by (simp add: example_defs)
  note a = stop_refused_leaves_store_unchanged [OF auth, of "''1''" 1 env_ok world_fritz ?r1 400]
  note b = stop_refused_leaves_store_unchanged [OF auth, of _ _ env_ok world_fritz ?r2 422 77]
  from a p r1 have A:
    "\<exists>msg. fst (stopJobById env_ok (Some api_user) (Inr ?r1) (Some ''1'') world_fritz) = [handleError msg 400]"
    "tbl_job (snd (stopJobById env_ok (Some api_user) (Inr ?r1) (Some ''1'') world_fritz)) = tbl_job world_fritz"
    by blast+
  from b j2 r2 have B:
    "\<exists>msg. fst (stopJobByRequest env_ok (Some api_user) (Inr ?r2) world_fritz) = [handleError msg 422]"
    "new_calls world_fritz (snd (stopJobByRequest env_ok (Some api_user) (Inr ?r2) world_fritz))
       = [CallFind 77 (reqCluster ?r2) (reqStartTime ?r2)]"
    by blast+
  from A B auth p r1 j2 r2 show ?thesis
    unfolding c2 tbl by blast
qed

text \<open>
  C2 as stated (a stop request for a job that does not exist is answered with status 400)
  fails: the only job has the database id 1, and the stop request for the id 2 is answered
  with status 422, "finding job failed".
\<close>

theorem stop_unknown_job_counterexample:
  "map ID (tbl_job world_fritz) = [1]
   \<and> fst (stopJobById env_ok (Some api_user) (Inr (stop_request 1649727412 ''completed'')) (Some ''2'')
            world_fritz)
       = [Response 422 ''application/json''
            (ErrorResponse ''Unprocessable Entity'' ''finding job failed: sql: no rows in result set'')]"
  by (simp add: stopJobById_def auth_defs parse_defs lookup_defs stop_defs example_defs)

text \<open>
  C3 (amended).  For every stop that succeeds and whose difference
  \<open>stopTime - startTime\<close> is at most \<open>2^31 - 1\<close>, the job handed to the store's \<open>Stop\<close>,
  kept in the job table and returned in the response has exactly that difference as its
  duration, and its state is the requested final state, or "completed" when the request
  names none.
\<close>

theorem stop_exact_duration_and_state:
  assumes "checkAndHandleStopJob env (Some job) req w = (rs, w')"
    and "statusCode (hd rs) = 200"
    and "sint (StopTime req) - sint (StartTimeUnix job) \<le> 2 ^ 31 - 1"
  shows "\<exists>j cs. rs = [Response 200 ''application/json'' (JobBody j)]
           \<and> trace w' = trace w @ CallStop (ID job) (Duration j) (State j) (MonitoringStatus job) # cs
           \<and> (\<forall>r \<in> set (tbl_job w'). ID r = ID job \<longrightarrow> Duration r = Duration j \<and> State r = State j)
           \<and> sint (Duration j) = sint (StopTime req) - sint (StartTimeUnix job)
           \<and> State j = (if reqState req = [] then JobStateCompleted else reqState req)"
proof -
  let ?j = "stopped job req"
  from stop_success(1) [OF assms(1,2)]
  have pos: "0 < sint (StopTime req) - sint (StartTimeUnix job)"
    by (simp add: word_sle_eq)
  have "sint (Duration ?j) = (sint (StopTime req) - sint (StartTimeUnix job) + 2 ^ 31) mod 2 ^ 32 - 2 ^ 31"
    by (simp add: stopped_def sint_ucast_diff)
  with pos assms(3) have dur: "sint (Duration ?j) = sint (StopTime req) - sint (StartTimeUnix job)"
    by simp
  have st: "State ?j = (if reqState req = [] then JobStateCompleted else reqState req)"
    by (simp add: stopped_def)
  obtain cs where tr:
    "trace w' = trace w @ CallStop (ID job) (Duration ?j) (State ?j) (MonitoringStatus job) # cs"
    using stop_success_trace [OF assms(1,2)] by blast
  have rows: "\<forall>r \<in> set (tbl_job w'). ID r = ID job \<longrightarrow> Duration r = Duration ?j \<and> State r = State ?j"
    using stop_success_rows [OF assms(1,2)] by blast
  from stop_success(4) [OF assms(1,2)] tr rows dur st show ?thesis
    by blast
qed

text \<open>The property at the stop of job 1 one hour after its start.\<close>

theorem stop_exact_duration_and_state_witness:
  "statusCode (hd (fst (checkAndHandleStopJob env_ok (Some job_fritz)
                          (stop_request 1649727412 []) world_fritz))) = 200
   \<and> sint (StopTime (stop_request 1649727412 [])) - sint (StartTimeUnix job_fritz) \<le> 2 ^ 31 - 1
   \<and> (\<exists>j. fst (checkAndHandleStopJob env_ok (Some job_fritz) (stop_request 1649727412 []) world_fritz)
                 = [Response 200 ''application/json'' (JobBody j)]
          \<and> sint (Duration j) = 3600 \<and> State j = ''completed''
          \<and> (\<exists>r. r \<in> set (tbl_job (snd (checkAndHandleStopJob env_ok (Some job_fritz)
                                              (stop_request 1649727412 []) world_fritz)))
                 \<and> ID r = ID job_fritz \<and> Duration r = Duration j \<and> State r = State j))"
proof -
  let ?run = "checkAndHandleStopJob env_ok (Some job_fritz) (stop_request 1649727412 []) world_fritz"
  have run: "?run = (fst ?run, snd ?run)" by simp
  have ok: "statusCode (hd (fst ?run)) = 200"
    by (simp add: stop_defs example_defs)
  have small: "sint (StopTime (stop_request 1649727412 [])) - sint (StartTimeUnix job_fritz) \<le> 2 ^ 31 - 1"
    by (simp add: example_defs)
  have d: "sint (StopTime (stop_request 1649727412 [])) - sint (StartTimeUnix job_fritz) = 3600"
    by (simp add: example_defs)
  have row: "\<exists>r. r \<in> set (tbl_job (snd ?run)) \<and> ID r = ID job_fritz"
    by (simp add: stop_defs example_defs)
  from stop_exact_duration_and_state [OF run ok small] obtain j where j:
    "fst ?run = [Response 200 ''application/json'' (JobBody j)]"
    "\<forall>r \<in> set (tbl_job (snd ?run)). ID r = ID job_fritz \<longrightarrow> Duration r = Duration j \<and> State r = State j"
    "sint (Duration j) = sint (StopTime (stop_request 1649727412 [])) - sint (StartTimeUnix job_fritz)"
    "State j = (if reqState (stop_request 1649727412 []) = [] then JobStateCompleted
                else reqState (stop_request 1649727412 []))"
    by blast
  from j(4) have st: "State j = ''completed''"
    by (simp add: stop_request_def JobStateCompleted_def)
  from row j(2) obtain r where "r \<in> set (tbl_job (snd ?run))" "ID r = ID job_fritz"
    "Duration r = Duration j" "State r = State j"
    by blast
  with j(1) j(3) st d ok small show ?thesis by auto
qed

text \<open>
  C3 as stated (the duration is exactly \<open>stopTime - startTime\<close> after every successful
  stop) fails: a job started at 1649723812 and stopped \<open>2^31\<close> seconds later is answered
  with status 200 and the duration \<open>-2147483648\<close>.
\<close>

theorem stop_exact_duration_counterexample:
  "fst (checkAndHandleStopJob env_ok (Some job_fritz) (stop_request 3797207460 ''completed'') world_fritz)
     = [Response 200 ''application/json'' (JobBody (job_fritz\<lparr>Duration := - 2147483648, State := ''completed''\<rparr>))]
   \<and> sint (- 2147483648 :: int32) \<noteq> sint (3797207460 :: int64) - sint (StartTimeUnix job_fritz)"
  by (simp add: stop_defs example_defs)

text \<open>
  C4.  A successful stop of a job whose monitoring status is "disabled" dispatches no
  archival work: the only call the handler makes is the store's \<open>Stop\<close>; the counter of
  outstanding archive operations is not incremented and the metric archiver is not called.
\<close>

theorem stop_disabled_never_archives:
  assumes "checkAndHandleStopJob env (Some job) req w = (rs, w')"
    and "statusCode (hd rs) = 200"
    and "MonitoringStatus job = MonitoringStatusDisabled"
  shows "(\<exists>d s. new_calls w w' = [CallStop (ID job) d s MonitoringStatusDisabled])
         \<and> OngoingArchivingsAdd \<notin> set (new_calls w w')
         \<and> (\<forall>j. CallArchiveJob j \<notin> set (new_calls w w'))"
proof -
  from stop_success(6) [OF assms(1,2)] assms(3)
  have "trace w' = trace w @ [CallStop (ID job) (Duration (stopped job req)) (State (stopped job req))
                                MonitoringStatusDisabled]"
    by (simp add: Let_def Stop_trace)
  then show ?thesis by simp
qed

text \<open>The property at the stop of job 1 with monitoring disabled.\<close>

theorem stop_disabled_never_archives_witness:
  "statusCode (hd (fst (checkAndHandleStopJob env_ok
       (Some (job_fritz\<lparr>MonitoringStatus := MonitoringStatusDisabled\<rparr>))
       (stop_request 1649727412 ''failed'') world_fritz))) = 200
   \<and> new_calls world_fritz (snd (checkAndHandleStopJob env_ok
       (Some (job_fritz\<lparr>MonitoringStatus := MonitoringStatusDisabled\<rparr>))
       (stop_request 1649727412 ''failed'') world_fritz))
     = [CallStop 1 3600 ''failed'' MonitoringStatusDisabled]"
proof -
  let ?job = "job_fritz\<lparr>MonitoringStatus := MonitoringStatusDisabled\<rparr>"
  let ?run = "checkAndHandleStopJob env_ok (Some ?job) (stop_request 1649727412 ''failed'') world_fritz"
  have run: "?run = (fst ?run, snd ?run)" by simp
  have ok: "statusCode (hd (fst ?run)) = 200"
    by (simp add: stop_defs example_defs)
  have dis: "MonitoringStatus ?job = MonitoringStatusDisabled" by simp
  have tr: "CallStop 1 3600 ''failed'' MonitoringStatusDisabled \<in> set (new_calls world_fritz (snd ?run))"
    by (simp add: new_calls_def stop_defs example_defs)
  from stop_disabled_never_archives [OF run ok dis] obtain d s where
    "new_calls world_fritz (snd ?run) = [CallStop (ID ?job) d s MonitoringStatusDisabled]"
    by blast
  with tr ok show ?thesis by auto
qed



text \<open>
  C6.  For every start request of a requester who passes the role check: if the body cannot
  be decoded, or \<open>SanityChecks\<close> refuses the specification (after the default state
  "running" has been filled in), the request is answered with status 400 and no call is
  made: neither the duplicate query nor the insert runs, and the world is unchanged.
\<close>

theorem startJob_invalid_never_reaches_store:
  assumes "\<not> missing_role user"
    and "case decoded of
           Inl e \<Rightarrow> True
         | Inr req \<Rightarrow>
             SanityChecks env (if metaState req = [] then req\<lparr>metaState := JobStateRunning\<rparr> else req)
               \<noteq> None"
  shows "(\<exists>msg. fst (startJob env user decoded w) = [handleError msg 400])
         \<and> snd (startJob env user decoded w) = w
         \<and> new_calls w (snd (startJob env user decoded w)) = []"
proof (cases decoded)
  case (Inl e)
  with assms(1) show ?thesis by (auto simp: startJob_def new_calls_def)
next
  case (Inr req)
  with assms obtain e where
    "SanityChecks env (if metaState req = [] then req\<lparr>metaState := JobStateRunning\<rparr> else req) = Some e"
    by auto
  with Inr assms(1) show ?thesis
    by (auto simp: startJob_def new_calls_def Let_def)
qed

text \<open>The property at a specification that the sanity checks refuse, and at a body that
  cannot be decoded.\<close>

theorem startJob_invalid_never_reaches_store_witness:
  "\<not> missing_role (Some api_user)
   \<and> SanityChecks env_strict (meta_fritz\<lparr>metaState := JobStateRunning\<rparr>) \<noteq> None
   \<and> (\<exists>msg. fst (startJob env_strict (Some api_user) (Inr meta_fritz) world_fritz) = [handleError msg 400])
   \<and> snd (startJob env_strict (Some api_user) (Inr meta_fritz) world_fritz) = world_fritz
   \<and> (\<exists>msg. fst (startJob env_ok (Some api_user) (Inl ''unexpected EOF'') world_fritz) = [handleError msg 400])
   \<and> new_calls world_fritz (snd (startJob env_ok (Some api_user) (Inl ''unexpected EOF'') world_fritz)) = []"
proof -
  have auth: "\<not> missing_role (Some api_user)"
    by (simp add: auth_defs example_defs)
  have s: "SanityChecks env_strict (meta_fritz\<lparr>metaState := JobStateRunning\<rparr>) \<noteq> None"
    by (simp add: env_strict_def example_defs)
  have h1: "case (Inr meta_fritz :: error + JobMeta) of
              Inl e \<Rightarrow> True
            | Inr req \<Rightarrow>
                SanityChecks env_strict
                  (if metaState req = [] then req\<lparr>metaState := JobStateRunning\<rparr> else req) \<noteq> None"
    by (simp add: env_strict_def example_defs)
  have h2: "case (Inl ''unexpected EOF'' :: error + JobMeta) of
              Inl e \<Rightarrow> True
            | Inr req \<Rightarrow>
                SanityChecks env_ok
                  (if metaState req = [] then req\<lparr>metaState := JobStateRunning\<rparr> else req) \<noteq> None"
    by simp
  from startJob_invalid_never_reaches_store [OF auth h1, of world_fritz]
       startJob_invalid_never_reaches_store [OF auth h2, of world_fritz]
       auth s
  show ?thesis by blast
qed



text \<open>
  C8.  \<open>getJobs\<close> reports its errors with \<open>http.Error\<close>, not with \<open>handleError\<close>: a request
  with the unknown query parameter \<open>foo\<close> is answered with status 400 and the plain-text
  body "invalid query parameter: foo", which is not an \<open>ErrorResponse\<close>.
\<close>

theorem getJobs_unknown_parameter_plain_text:
  "getJobs env_ok (Some api_user) [(''foo'', ''bar'', [])] world_fritz
     = ([Response 400 ''text/plain; charset=utf-8'' (PlainText (''invalid query parameter: foo'' @ [CHR 0x0A]))],
        world_fritz)
   \<and> (\<forall>status msg. body (hd (fst (getJobs env_ok (Some api_user) [(''foo'', ''bar'', [])] world_fritz)))
          \<noteq> ErrorResponse status msg)"
  by (simp add: getJobs_def query_param_def http_Error_def auth_defs example_defs)

text \<open>
  C9.  For every call of \<open>deleteJobBefore\<close> that is answered with status 200: the path
  variable is a timestamp \<open>ts\<close>, the job table afterwards consists of exactly the jobs
  that do not start before \<open>ts\<close>, and the body is "Successfully deleted N jobs" where N is
  the number of jobs that started before \<open>ts\<close>, that is, the number of rows removed.
\<close>

theorem deleteJobBefore_deletes_and_counts:
  assumes "deleteJobBefore env user tsvar w = (rs, w')" and "statusCode (hd rs) = 200"
  shows "\<exists>s ts n. tsvar = Some s \<and> ParseInt s = Inr ts
           \<and> tbl_job w' = filter (\<lambda>j. \<not> StartTimeUnix j <s ts) (tbl_job w)
           \<and> n = int (length (filter (\<lambda>j. StartTimeUnix j <s ts) (tbl_job w)))
           \<and> n = int (length (tbl_job w)) - int (length (tbl_job w'))
           \<and> rs = [Response 200 ''application/json''
                     (DeleteJobApiResponse (''Successfully deleted '' @ show_int n @ '' jobs''))]"
proof -
  from deleteJobBefore_success [OF assms] obtain s ts where
    s: "tsvar = Some s" "ParseInt s = Inr ts" and f: "fault env (CallDeleteJobsBefore ts) = None"
    and r: "(rs, w') = (case DeleteJobsBefore env ts w of
                 (Inr cnt, w1) \<Rightarrow>
                   ([Response 200 ''application/json''
                       (DeleteJobApiResponse (''Successfully deleted '' @ show_int cnt @ '' jobs''))], w1)
               | (Inl e, w1) \<Rightarrow> ([], w1))"
    by blast
  let ?n = "int (length (filter (\<lambda>j. StartTimeUnix j <s ts) (tbl_job w)))"
  from f r have rs: "rs = [Response 200 ''application/json''
                     (DeleteJobApiResponse (''Successfully deleted '' @ show_int ?n @ '' jobs''))]"
    and w': "tbl_job w' = filter (\<lambda>j. \<not> StartTimeUnix j <s ts) (tbl_job w)"
    by (simp_all add: DeleteJobsBefore_def Let_def)
  have "length (filter (\<lambda>j. StartTimeUnix j <s ts) (tbl_job w))
          + length (filter (\<lambda>j. \<not> StartTimeUnix j <s ts) (tbl_job w)) = length (tbl_job w)"
    by (rule sum_length_filter_compl)
  with w' have "?n = int (length (tbl_job w)) - int (length (tbl_job w'))"
    by simp
  with s rs w' show ?thesis by blast
qed

text \<open>The property at a table of three jobs, two of which start before the timestamp.\<close>

theorem deleteJobBefore_deletes_and_counts_witness:
  "statusCode (hd (fst (deleteJobBefore env_ok (Some api_user) (Some ''250'') world_three))) = 200
   \<and> ParseInt ''250'' = Inr 250
   \<and> map ID (tbl_job (snd (deleteJobBefore env_ok (Some api_user) (Some ''250'') world_three))) = [3]
   \<and> fst (deleteJobBefore env_ok (Some api_user) (Some ''250'') world_three)
       = [Response 200 ''application/json'' (DeleteJobApiResponse ''Successfully deleted 2 jobs'')]"
proof -
  let ?run = "deleteJobBefore env_ok (Some api_user) (Some ''250'') world_three"
  have run: "?run = (fst ?run, snd ?run)" by simp
  have p: "ParseInt ''250'' = Inr 250"
    by (simp add: parse_defs)
  have ok: "statusCode (hd (fst ?run)) = 200"
    by (simp add: deleteJobBefore_def DeleteJobsBefore_def auth_defs parse_defs Let_def example_defs)
  have rows: "filter (\<lambda>j. \<not> StartTimeUnix j <s 250) (tbl_job world_three)
                = [job_fritz\<lparr>ID := 3, JobID := 123002, StartTimeUnix := 300\<rparr>]"
    by (simp add: world_three_def example_defs)
  have cnt: "int (length (filter (\<lambda>j. StartTimeUnix j <s 250) (tbl_job world_three))) = 2"
    by (simp add: world_three_def example_defs)
  have sh: "show_int 2 = ''2''"
    by (simp add: show_int_def show_digits.simps char_of_def)
  from deleteJobBefore_deletes_and_counts [OF run ok] obtain s ts n where
    "Some ''250'' = Some s" "ParseInt s = Inr ts"
    "tbl_job (snd ?run) = filter (\<lambda>j. \<not> StartTimeUnix j <s ts) (tbl_job world_three)"
    "n = int (length (filter (\<lambda>j. StartTimeUnix j <s ts) (tbl_job world_three)))"
    "fst ?run = [Response 200 ''application/json''
                   (DeleteJobApiResponse (''Successfully deleted '' @ show_int n @ '' jobs''))]"
    by blast
  with p have "tbl_job (snd ?run) = filter (\<lambda>j. \<not> StartTimeUnix j <s 250) (tbl_job world_three)"
    and "fst ?run = [Response 200 ''application/json''
           (DeleteJobApiResponse (''Successfully deleted ''
              @ show_int (int (length (filter (\<lambda>j. StartTimeUnix j <s 250) (tbl_job world_three))))
              @ '' jobs''))]"
    by auto
  with ok p show ?thesis unfolding rows cnt sh by simp
qed

text \<open>
  C10.  On a successful stop the duration is the 64-bit difference
  \<open>stopTime - startTime\<close> converted to a signed 32-bit integer.  The value handed to the
  store's \<open>Stop\<close> and returned in the response is that difference reduced modulo
  \<open>2^32\<close> and read as a signed 32-bit number; whenever the difference exceeds
  \<open>2^31 - 1\<close> it is not the exact difference.
\<close>

theorem stop_duration_truncated:
  assumes "checkAndHandleStopJob env (Some job) req w = (rs, w')"
    and "statusCode (hd rs) = 200"
    and "2 ^ 31 - 1 < sint (StopTime req - StartTimeUnix job)"
  shows "\<exists>j cs. rs = [Response 200 ''application/json'' (JobBody j)]
           \<and> trace w' = trace w @ CallStop (ID job) (Duration j) (State j) (MonitoringStatus job) # cs
           \<and> Duration j = ucast (StopTime req - StartTimeUnix job)
           \<and> sint (Duration j) = (sint (StopTime req - StartTimeUnix job) + 2 ^ 31) mod 2 ^ 32 - 2 ^ 31
           \<and> sint (Duration j) \<noteq> sint (StopTime req - StartTimeUnix job)"
proof -
  let ?j = "stopped job req"
  have d: "Duration ?j = ucast (StopTime req - StartTimeUnix job)"
    by (simp add: stopped_def)
  have "sint (Duration ?j) < 2 ^ 31"
    using sint_lt [of "Duration ?j"] by simp
  with assms(3) have "sint (Duration ?j) \<noteq> sint (StopTime req - StartTimeUnix job)"
    by simp
  moreover obtain cs where
    "trace w' = trace w @ CallStop (ID job) (Duration ?j) (State ?j) (MonitoringStatus job) # cs"
    using stop_success_trace [OF assms(1,2)] by blast
  ultimately show ?thesis
    using stop_success(4) [OF assms(1,2)] d sint_ucast64 [of "StopTime req - StartTimeUnix job"]
    by auto
qed

text \<open>The property at the stop of job 1 \<open>2^31\<close> seconds after its start.\<close>

theorem stop_duration_truncated_witness:
  "statusCode (hd (fst (checkAndHandleStopJob env_ok (Some job_fritz)
                          (stop_request 3797207460 []) world_fritz))) = 200
   \<and> 2 ^ 31 - 1 < sint (StopTime (stop_request 3797207460 []) - StartTimeUnix job_fritz)
   \<and> (\<exists>j cs. fst (checkAndHandleStopJob env_ok (Some job_fritz)
                     (stop_request 3797207460 []) world_fritz)
                 = [Response 200 ''application/json'' (JobBody j)]
          \<and> trace (snd (checkAndHandleStopJob env_ok (Some job_fritz)
                           (stop_request 3797207460 []) world_fritz))
              = trace world_fritz @ CallStop (ID job_fritz) (Duration j) (State j) (MonitoringStatus job_fritz) # cs
          \<and> sint (Duration j) = - 2147483648)"
proof -
  let ?run = "checkAndHandleStopJob env_ok (Some job_fritz) (stop_request 3797207460 []) world_fritz"
  have run: "?run = (fst ?run, snd ?run)" by simp
  have ok: "statusCode (hd (fst ?run)) = 200"
    by (simp add: stop_defs example_defs)
  have big: "2 ^ 31 - 1 < sint (StopTime (stop_request 3797207460 []) - StartTimeUnix job_fritz)"
    by (simp add: example_defs)
  have d: "sint (StopTime (stop_request 3797207460 []) - StartTimeUnix job_fritz) = 2147483648"
    by (simp add: example_defs)
  from stop_duration_truncated [OF run ok big] obtain j cs where
    "fst ?run = [Response 200 ''application/json'' (JobBody j)]"
    "trace (snd ?run) = trace world_fritz @ CallStop (ID job_fritz) (Duration j) (State j) (MonitoringStatus job_fritz) # cs"
    "sint (Duration j) = (sint (StopTime (stop_request 3797207460 []) - StartTimeUnix job_fritz) + 2 ^ 31) mod 2 ^ 32 - 2 ^ 31"
    by blast
  then show ?thesis using ok big unfolding d by simp
qed

end
